theory Spec2Isabelle
  imports Main "HOL-Library.Word"
begin

unbundle bit_operations_syntax

section \<open>Values shared by the whole pipeline\<close>

text \<open>
  A Go byte slice is a list of bytes. Where the source tells a nil slice from an empty
  one (\<open>RawIDM\<close>, the entries of \<open>Attributes\<close>), the slice is a \<open>byte list option\<close> and
  \<open>None\<close> is nil. Slices are modelled with capacity equal to length.
\<close>

type_synonym byte = "8 word"

text \<open>
  The sentinel errors of the packages \<open>inetdiag\<close> and \<open>parser\<close>, and the one error that
  \<open>Decode\<close> builds with \<open>fmt.Errorf\<close>. Only their identity matters.
\<close>

datatype error =
    ErrBadSequence
  | ErrBadPid
  | ErrBadMsgData
  | ErrNotType20
  | ErrParseFailed
  | Errorf string

text \<open>The run-time panics that the modelled code can raise.\<close>

datatype panic = IndexOutOfRange | SliceBoundsOutOfRange

text \<open>
  A Go function that returns \<open>(..., error)\<close> is modelled with result type
  \<open>failure + 'a\<close>: \<open>Inl (Error e)\<close> is the return of a non-nil error \<open>e\<close> (every such
  return of the source sets the other results to their zero values), \<open>Inl (Panic p)\<close> is
  a run-time panic, and \<open>Inr v\<close> is a return with a nil error.
\<close>

datatype failure = Panic panic | Error error

datatype ByteOrder = LittleEndian | BigEndian

text \<open>\<open>binary.ByteOrder.Uint32\<close>: it indexes \<open>b[3]\<close> first, so a shorter slice panics.\<close>

fun Uint32 :: "ByteOrder \<Rightarrow> byte list \<Rightarrow> failure + 32 word" where
  "Uint32 LittleEndian (b0 # b1 # b2 # b3 # rest) =
     Inr (ucast b0 OR push_bit 8 (ucast b1) OR push_bit 16 (ucast b2) OR push_bit 24 (ucast b3))"
| "Uint32 BigEndian (b0 # b1 # b2 # b3 # rest) =
     Inr (ucast b3 OR push_bit 8 (ucast b2) OR push_bit 16 (ucast b1) OR push_bit 24 (ucast b0))"
| "Uint32 order b = Inl (Panic IndexOutOfRange)"

section \<open>Netlink messages\<close>

text \<open>\<open>syscall.NlMsghdr\<close> and \<open>syscall.NetlinkMessage\<close>.\<close>

record NlMsghdr =
  Len :: "32 word"
  Type :: "16 word"
  Flags :: "16 word"
  Seq :: "32 word"
  Pid :: "32 word"

record NetlinkMessage =
  Header :: NlMsghdr
  Data :: "byte list"

text \<open>The constants of \<open>golang.org/x/sys/unix\<close> that the classifier compares with.\<close>

definition NLMSG_ERROR :: "16 word" where "NLMSG_ERROR = 2"
definition NLMSG_DONE :: "16 word" where "NLMSG_DONE = 3"
definition NLM_F_MULTI :: "16 word" where "NLM_F_MULTI = 2"

section \<open>The message classifier\<close>

text \<open>
  \<open>processSingleMessage\<close> of the command. \<open>native\<close> is the byte order that
  \<open>nl.NativeEndian()\<close> returns on the machine. The result \<open>Inr (m', continue)\<close> is the
  return \<open>(m', continue, nil)\<close> and \<open>Inl (Error e)\<close> is \<open>(nil, false, e)\<close>. The lines the
  function prints do not reach its results and are left out. The message is passed by
  pointer and every caller passes the address of a slice element, never nil.
\<close>

definition processSingleMessage ::
  "ByteOrder \<Rightarrow> NetlinkMessage \<Rightarrow> 32 word \<Rightarrow> 32 word \<Rightarrow> failure + (NetlinkMessage option \<times> bool)" where
  "processSingleMessage native m seq pid =
     (if Seq (Header m) \<noteq> seq then Inl (Error ErrBadSequence)
      else if Pid (Header m) \<noteq> pid then Inl (Error ErrBadPid)
      else if Type (Header m) = NLMSG_DONE then Inr (None, False)
      else
        (let multi =
               (if Flags (Header m) AND NLM_F_MULTI = 0 then Inr (Some m, False)
                else Inr (Some m, True))
         in if Type (Header m) = NLMSG_ERROR then
              (if length (Data m) < 4 then Inl (Error ErrBadMsgData)
               else
                 (case Uint32 native (take 4 (Data m)) of
                    Inl f \<Rightarrow> Inl f
                  | Inr code \<Rightarrow> if sint code = 0 then Inr (None, False) else multi))
            else multi))"

section \<open>Declarations of the repository that the modelled files use\<close>

text \<open>
  \<open>syscall.RtAttr\<close> (the kernel's \<open>struct rtattr\<close>, whose fields are \<open>rta_len\<close> and
  \<open>rta_type\<close>) and \<open>NetlinkRouteAttr\<close>.
\<close>

record RtAttr =
  rta_Len :: "16 word"
  rta_Type :: "16 word"

record NetlinkRouteAttr =
  Attr :: RtAttr
  Value :: "byte list"

text \<open>
  The parser uses declarations of the packages \<open>inetdiag\<close>, \<open>tcp\<close> and \<open>parser\<close> and of
  Go's \<open>net\<close> package whose text is not among the modelled files. They are parameters
  of the model, collected in one record:
  \<^item> \<open>native\<close>: the byte order of the machine, which a pointer cast to \<open>uint32\<close> reads in;
  \<^item> \<open>SizeofRtAttr\<close>: the size of the attribute header;
  \<^item> \<open>netlinkRouteAttrAndValue\<close>: the header, the bytes after it and the aligned length
    of the first attribute of a buffer, or a failure;
  \<^item> \<open>SplitInetDiagMsg\<close>: the raw diagnostic header (nil when the data is too short) and
    the attribute bytes;
  \<^item> \<open>RawInetDiagMsg_Parse\<close>: the method \<open>RawInetDiagMsg.Parse\<close>; the parsed header is a
    view of the raw bytes;
  \<^item> \<open>SrcIP\<close>, \<open>DstIP\<close> and the four predicates of \<open>net.IP\<close>;
  \<^item> \<open>Sizeof_T\<close>: \<open>unsafe.Sizeof(T{})\<close> for each structure \<open>T\<close> that an attribute maps on.
\<close>

record externals =
  native :: ByteOrder
  SizeofRtAttr :: int
  netlinkRouteAttrAndValue :: "byte list \<Rightarrow> failure + (RtAttr \<times> byte list \<times> int)"
  SplitInetDiagMsg :: "byte list \<Rightarrow> byte list option \<times> byte list"
  RawInetDiagMsg_Parse :: "byte list \<Rightarrow> failure + byte list"
  SrcIP :: "byte list \<Rightarrow> byte list"
  DstIP :: "byte list \<Rightarrow> byte list"
  IsLoopback :: "byte list \<Rightarrow> bool"
  IsLinkLocalUnicast :: "byte list \<Rightarrow> bool"
  IsMulticast :: "byte list \<Rightarrow> bool"
  IsUnspecified :: "byte list \<Rightarrow> bool"
  Sizeof_MemInfo :: nat
  Sizeof_LinuxTCPInfo :: nat
  Sizeof_VegasInfo :: nat
  Sizeof_SocketMemInfo :: nat
  Sizeof_DCTCPInfo :: nat
  Sizeof_BBRInfo :: nat

text \<open>
  Modelled from the spec: the attribute type codes \<open>inetdiag.INET_DIAG_*\<close> are declared in
  the package \<open>inetdiag\<close>, which is not among the modelled files. The spec calls them a
  fixed kernel ABI; the values are those of the kernel's enumeration in
  \<open>linux/inet_diag.h\<close>, counted from \<open>INET_DIAG_NONE = 0\<close>.
\<close>

definition INET_DIAG_MEMINFO :: nat where "INET_DIAG_MEMINFO = 1"
definition INET_DIAG_INFO :: nat where "INET_DIAG_INFO = 2"
definition INET_DIAG_VEGASINFO :: nat where "INET_DIAG_VEGASINFO = 3"
definition INET_DIAG_CONG :: nat where "INET_DIAG_CONG = 4"
definition INET_DIAG_TOS :: nat where "INET_DIAG_TOS = 5"
definition INET_DIAG_TCLASS :: nat where "INET_DIAG_TCLASS = 6"
definition INET_DIAG_SKMEMINFO :: nat where "INET_DIAG_SKMEMINFO = 7"
definition INET_DIAG_SHUTDOWN :: nat where "INET_DIAG_SHUTDOWN = 8"
definition INET_DIAG_DCTCPINFO :: nat where "INET_DIAG_DCTCPINFO = 9"
definition INET_DIAG_PROTOCOL :: nat where "INET_DIAG_PROTOCOL = 10"
definition INET_DIAG_SKV6ONLY :: nat where "INET_DIAG_SKV6ONLY = 11"
definition INET_DIAG_LOCALS :: nat where "INET_DIAG_LOCALS = 12"
definition INET_DIAG_PEERS :: nat where "INET_DIAG_PEERS = 13"
definition INET_DIAG_PAD :: nat where "INET_DIAG_PAD = 14"
definition INET_DIAG_MARK :: nat where "INET_DIAG_MARK = 15"
definition INET_DIAG_BBRINFO :: nat where "INET_DIAG_BBRINFO = 16"
definition INET_DIAG_CLASS_ID :: nat where "INET_DIAG_CLASS_ID = 17"
definition INET_DIAG_MD5SIG :: nat where "INET_DIAG_MD5SIG = 18"
definition INET_DIAG_MAX :: nat where "INET_DIAG_MAX = 19"

section \<open>Records of the parser\<close>

text \<open>\<open>time.Time\<close> is an integer here; only its being copied matters.\<close>

type_synonym Time = int

record Metadata =
  UUID :: string
  Sequence :: int
  StartTime :: Time

record ArchivalRecord =
  Timestamp :: Time
  RawIDM :: "byte list option"
  Attributes :: "byte list option list"
  Metadata :: "Metadata option"

text \<open>
  \<open>Snapshot\<close>. A pointer to a structure is the bytes of the structure, or \<open>None\<close> for
  nil. The field \<open>Timestamp\<close> is \<open>SnapshotTimestamp\<close> and the field
  \<open>CongestionAlgorithm\<close> is \<open>CongestionAlgorithmName\<close>, to keep them apart from the field of
  \<open>ArchivalRecord\<close> and from the method of \<open>RouteAttrValue\<close>.
\<close>

record Snapshot =
  SnapshotTimestamp :: Time
  Observed :: "32 word"
  NotFullyParsed :: "32 word"
  InetDiagMsg :: "byte list option"
  CongestionAlgorithmName :: string
  TOS :: "8 word"
  TClass :: "8 word"
  ClassID :: "8 word"
  Shutdown :: "8 word"
  Protocol :: int
  Mark :: "32 word"
  TCPInfo :: "byte list option"
  MemInfo :: "byte list option"
  SocketMem :: "byte list option"
  VegasInfo :: "byte list option"
  DCTCPInfo :: "byte list option"
  BBRInfo :: "byte list option"

text \<open>The zero value \<open>Snapshot{}\<close>.\<close>

definition zeroSnapshot :: Snapshot where
  "zeroSnapshot =
     \<lparr>SnapshotTimestamp = 0, Observed = 0, NotFullyParsed = 0, InetDiagMsg = None,
      CongestionAlgorithmName = [], TOS = 0, TClass = 0, ClassID = 0, Shutdown = 0,
      Protocol = 0, Mark = 0, TCPInfo = None, MemInfo = None, SocketMem = None,
      VegasInfo = None, DCTCPInfo = None, BBRInfo = None\<rparr>"

section \<open>The attribute codec\<close>

text \<open>Go's builtin \<open>copy(dst, src)\<close>: the first \<open>min (len dst) (len src)\<close> bytes are overwritten.\<close>

definition copy_bytes :: "byte list \<Rightarrow> byte list \<Rightarrow> byte list" where
  "copy_bytes dst src = take (length dst) src @ drop (length src) dst"

text \<open>
  \<open>maybeCopy\<close>. The pointer it returns is cast to a structure of \<open>size\<close> bytes by every
  caller, so the model returns the \<open>size\<close> bytes at the pointer. Taking the address of
  element 0 of an empty slice panics. \<open>size\<close> (written \<open>size'\<close>, the plain name being a
  constant of HOL) comes from \<open>unsafe.Sizeof\<close> and is never negative.
\<close>

definition maybeCopy :: "byte list \<Rightarrow> nat \<Rightarrow> string \<Rightarrow> failure + (byte list \<times> bool)" where
  "maybeCopy src size' msgType =
     (if length src < size' then
        (let data = copy_bytes (replicate size' 0) src
         in if data = [] then Inl (Panic IndexOutOfRange) else Inr (take size' data, True))
      else if src = [] then Inl (Panic IndexOutOfRange)
      else Inr (take size' src, length src = size'))"

definition toMemInfo :: "externals \<Rightarrow> byte list \<Rightarrow> failure + (byte list \<times> bool)" where
  "toMemInfo X raw = maybeCopy raw (Sizeof_MemInfo X) ''MemInfo''"

definition toLinuxTCPInfo :: "externals \<Rightarrow> byte list \<Rightarrow> failure + (byte list \<times> bool)" where
  "toLinuxTCPInfo X raw = maybeCopy raw (Sizeof_LinuxTCPInfo X) ''TCPInfo''"

definition toVegasInfo :: "externals \<Rightarrow> byte list \<Rightarrow> failure + (byte list \<times> bool)" where
  "toVegasInfo X raw = maybeCopy raw (Sizeof_VegasInfo X) ''VegasInfo''"

text \<open>
  \<open>CongestionAlgorithm\<close>: the slice expression \<open>raw[:len(raw)-1]\<close> panics when the upper
  bound is negative. The Go string is converted byte by byte.
\<close>

definition CongestionAlgorithm :: "byte list \<Rightarrow> failure + (string \<times> bool)" where
  "CongestionAlgorithm raw =
     (if int (length raw) - 1 < 0 then Inl (Panic SliceBoundsOutOfRange)
      else Inr (map (\<lambda>b. char_of (unat b)) (take (length raw - 1) raw), True))"

definition toUint8 :: "byte list \<Rightarrow> 8 word \<times> bool" where
  "toUint8 raw = (if length raw < 1 then (0, False) else (raw ! 0, True))"

definition toTOS :: "byte list \<Rightarrow> 8 word \<times> bool" where
  "toTOS raw = toUint8 raw"

definition toTCLASS :: "byte list \<Rightarrow> 8 word \<times> bool" where
  "toTCLASS raw = toUint8 raw"

definition toClassID :: "byte list \<Rightarrow> 8 word \<times> bool" where
  "toClassID raw = toUint8 raw"

definition toSockMemInfo :: "externals \<Rightarrow> byte list \<Rightarrow> failure + (byte list \<times> bool)" where
  "toSockMemInfo X raw = maybeCopy raw (Sizeof_SocketMemInfo X) ''SockMemInfo''"

definition toShutdown :: "byte list \<Rightarrow> 8 word \<times> bool" where
  "toShutdown raw = toUint8 raw"

definition toDCTCPInfo :: "externals \<Rightarrow> byte list \<Rightarrow> failure + (byte list \<times> bool)" where
  "toDCTCPInfo X raw = maybeCopy raw (Sizeof_DCTCPInfo X) ''DCTCPInfo''"

text \<open>\<open>inetdiag.Protocol(p)\<close> keeps the value of the byte.\<close>

definition toProtocol :: "byte list \<Rightarrow> int \<times> bool" where
  "toProtocol raw = (case toUint8 raw of (p, ok) \<Rightarrow> (uint p, ok))"

text \<open>
  \<open>toMark\<close>: a nil slice has length 0, so the test \<open>raw == nil\<close> is covered by the test
  on the length. The pointer cast reads the four bytes in the machine's byte order.
\<close>

definition toMark :: "externals \<Rightarrow> byte list \<Rightarrow> failure + (32 word \<times> bool)" where
  "toMark X raw =
     (if length raw \<noteq> 4 then Inr (0, False)
      else (case Uint32 (native X) raw of Inl f \<Rightarrow> Inl f | Inr v \<Rightarrow> Inr (v, True)))"

definition toBBRInfo :: "externals \<Rightarrow> byte list \<Rightarrow> failure + (byte list \<times> bool)" where
  "toBBRInfo X raw = maybeCopy raw (Sizeof_BBRInfo X) ''BBRInfo''"

section \<open>The snapshot assembler\<close>

text \<open>
  The bit of \<open>Decode\<close> for the table index \<open>t\<close>: \<open>uint32(1) << uint8(t-1)\<close>. The index
  is a Go \<open>int\<close>; the conversion to \<open>uint8\<close> keeps the low eight bits, and a shift of a
  \<open>uint32\<close> by 32 or more gives 0.
\<close>

definition attrBit :: "nat \<Rightarrow> 32 word" where
  "attrBit t = push_bit (unat (word_of_int (int t - 1) :: 8 word)) (1 :: 32 word)"

text \<open>
  The \<open>switch\<close> of \<open>Decode\<close> for one non-nil entry: the snapshot with the decoded field
  stored, and \<open>ok\<close>. \<open>ok\<close> starts as false and only a codec sets it.
\<close>

definition Decode_attr ::
  "externals \<Rightarrow> nat \<Rightarrow> byte list \<Rightarrow> Snapshot \<Rightarrow> failure + (Snapshot \<times> bool)" where
  "Decode_attr X t rta result =
     (if t = INET_DIAG_MEMINFO then
        (case toMemInfo X rta of Inl f \<Rightarrow> Inl f
         | Inr (v, ok) \<Rightarrow> Inr (result\<lparr>MemInfo := Some v\<rparr>, ok))
      else if t = INET_DIAG_INFO then
        (case toLinuxTCPInfo X rta of Inl f \<Rightarrow> Inl f
         | Inr (v, ok) \<Rightarrow> Inr (result\<lparr>TCPInfo := Some v\<rparr>, ok))
      else if t = INET_DIAG_VEGASINFO then
        (case toVegasInfo X rta of Inl f \<Rightarrow> Inl f
         | Inr (v, ok) \<Rightarrow> Inr (result\<lparr>VegasInfo := Some v\<rparr>, ok))
      else if t = INET_DIAG_CONG then
        (case CongestionAlgorithm rta of Inl f \<Rightarrow> Inl f
         | Inr (v, ok) \<Rightarrow> Inr (result\<lparr>CongestionAlgorithmName := v\<rparr>, ok))
      else if t = INET_DIAG_TOS then
        (case toTOS rta of (v, ok) \<Rightarrow> Inr (result\<lparr>TOS := v\<rparr>, ok))
      else if t = INET_DIAG_TCLASS then
        (case toTCLASS rta of (v, ok) \<Rightarrow> Inr (result\<lparr>TClass := v\<rparr>, ok))
      else if t = INET_DIAG_SKMEMINFO then
        (case toSockMemInfo X rta of Inl f \<Rightarrow> Inl f
         | Inr (v, ok) \<Rightarrow> Inr (result\<lparr>SocketMem := Some v\<rparr>, ok))
      else if t = INET_DIAG_SHUTDOWN then
        (case toShutdown rta of (v, ok) \<Rightarrow> Inr (result\<lparr>Shutdown := v\<rparr>, ok))
      else if t = INET_DIAG_DCTCPINFO then
        (case toDCTCPInfo X rta of Inl f \<Rightarrow> Inl f
         | Inr (v, ok) \<Rightarrow> Inr (result\<lparr>DCTCPInfo := Some v\<rparr>, ok))
      else if t = INET_DIAG_PROTOCOL then
        (case toProtocol rta of (v, ok) \<Rightarrow> Inr (result\<lparr>Protocol := v\<rparr>, ok))
      else if t = INET_DIAG_SKV6ONLY then Inr (result, False)
      else if t = INET_DIAG_LOCALS then Inr (result, False)
      else if t = INET_DIAG_PEERS then Inr (result, False)
      else if t = INET_DIAG_PAD then Inr (result, False)
      else if t = INET_DIAG_MARK then
        (case toMark X rta of Inl f \<Rightarrow> Inl f
         | Inr (v, ok) \<Rightarrow> Inr (result\<lparr>Mark := v\<rparr>, ok))
      else if t = INET_DIAG_BBRINFO then
        (case toBBRInfo X rta of Inl f \<Rightarrow> Inl f
         | Inr (v, ok) \<Rightarrow> Inr (result\<lparr>BBRInfo := Some v\<rparr>, ok))
      else if t = INET_DIAG_CLASS_ID then
        (case toClassID rta of (v, ok) \<Rightarrow> Inr (result\<lparr>ClassID := v\<rparr>, ok))
      else if t = INET_DIAG_MD5SIG then Inr (result, False)
      else Inr (result, False))"

text \<open>The loop \<open>for t, raw := range ar.Attributes\<close>, from index \<open>t\<close> on.\<close>

fun Decode_loop ::
  "externals \<Rightarrow> nat \<Rightarrow> byte list option list \<Rightarrow> Snapshot \<Rightarrow> failure + Snapshot" where
  "Decode_loop X t [] result = Inr result"
| "Decode_loop X t (None # rest) result = Decode_loop X (Suc t) rest result"
| "Decode_loop X t (Some raw # rest) result =
     (case Decode_attr X t raw result of
        Inl f \<Rightarrow> Inl f
      | Inr (result', ok) \<Rightarrow>
          (let bit = attrBit t;
               observed = result'\<lparr>Observed := Observed result' OR bit\<rparr>
           in Decode_loop X (Suc t) rest
                (if \<not> ok then observed\<lparr>NotFullyParsed := NotFullyParsed observed OR bit\<rparr>
                 else observed)))"

text \<open>
  \<open>Decode\<close>: \<open>Inr (md, snapshot)\<close> is the return \<open>(md, &snapshot, nil)\<close> and
  \<open>Inl (Error e)\<close> is \<open>(nil, nil, e)\<close>. The record is passed by pointer; the model takes
  the record itself, as the command only passes records that \<open>MakeArchivalRecord\<close> built.
  The lines that \<open>Decode\<close> and the codecs print are left out.
\<close>

definition Decode :: "externals \<Rightarrow> ArchivalRecord \<Rightarrow> failure + (Metadata option \<times> Snapshot)" where
  "Decode X ar =
     (let result = zeroSnapshot\<lparr>SnapshotTimestamp := Timestamp ar\<rparr>
      in if Metadata ar = None \<and> RawIDM ar = None then
           Inl (Error (Errorf ''error empty record''))
         else
           (case (case RawIDM ar of
                    None \<Rightarrow> Inr result
                  | Some raw \<Rightarrow>
                      (case RawInetDiagMsg_Parse X raw of
                         Inl f \<Rightarrow> Inl f
                       | Inr idm \<Rightarrow> Inr (result\<lparr>InetDiagMsg := Some idm\<rparr>))) of
              Inl f \<Rightarrow> Inl f
            | Inr result \<Rightarrow>
                (case Decode_loop X 0 (Attributes ar) result of
                   Inl f \<Rightarrow> Inl f
                 | Inr result \<Rightarrow> Inr (Metadata ar, result))))"

section \<open>The attribute splitter\<close>

text \<open>
  The loop of \<open>ParseRouteAttr\<close>, with the attributes collected so far. The helper is a
  parameter, so nothing says that the buffer shrinks: a run that never ends is \<open>None\<close>.
  A slice expression with a bound that is negative or beyond the slice panics.
\<close>

partial_function (option) ParseRouteAttr_loop ::
  "externals \<Rightarrow> byte list \<Rightarrow> NetlinkRouteAttr list \<Rightarrow> (failure + NetlinkRouteAttr list) option" where
  "ParseRouteAttr_loop X b attrs =
     (if SizeofRtAttr X \<le> int (length b) then
        (case netlinkRouteAttrAndValue X b of
           Inl f \<Rightarrow> Some (Inl f)
         | Inr (a, vbuf, alen) \<Rightarrow>
             if uint (rta_Len a) - SizeofRtAttr X < 0
                \<or> int (length vbuf) < uint (rta_Len a) - SizeofRtAttr X
             then Some (Inl (Panic SliceBoundsOutOfRange))
             else if alen < 0 \<or> int (length b) < alen
             then Some (Inl (Panic SliceBoundsOutOfRange))
             else ParseRouteAttr_loop X (drop (nat alen) b)
                    (attrs @ [\<lparr>Attr = a,
                               Value = take (nat (uint (rta_Len a) - SizeofRtAttr X)) vbuf\<rparr>]))
      else Some (Inr attrs))"

declare ParseRouteAttr_loop.simps [code]

definition ParseRouteAttr ::
  "externals \<Rightarrow> byte list \<Rightarrow> (failure + NetlinkRouteAttr list) option" where
  "ParseRouteAttr X b = ParseRouteAttr_loop X b []"

section \<open>The record extractor\<close>

definition isLocal :: "externals \<Rightarrow> byte list \<Rightarrow> bool" where
  "isLocal X addr =
     (IsLoopback X addr \<or> IsLinkLocalUnicast X addr \<or> IsMulticast X addr \<or> IsUnspecified X addr)"

text \<open>The first loop of \<open>MakeArchivalRecord\<close>: the largest type, starting from \<open>m\<close>.\<close>

fun maxAttrTypeOf :: "NetlinkRouteAttr list \<Rightarrow> 16 word \<Rightarrow> 16 word" where
  "maxAttrTypeOf [] m = m"
| "maxAttrTypeOf (a # attrs) m =
     (let t = rta_Type (Attr a) in maxAttrTypeOf attrs (if t > m then t else m))"

text \<open>
  The second loop: an attribute beyond \<open>maxAttrType\<close> is skipped, any other is stored at
  its type. Indexing the table beyond its length panics.
\<close>

fun fillAttributes ::
  "16 word \<Rightarrow> NetlinkRouteAttr list \<Rightarrow> byte list option list \<Rightarrow> failure + byte list option list" where
  "fillAttributes maxAttrType [] tab = Inr tab"
| "fillAttributes maxAttrType (a # attrs) tab =
     (let t = rta_Type (Attr a)
      in if t > maxAttrType then fillAttributes maxAttrType attrs tab
         else if unat t < length tab then
           fillAttributes maxAttrType attrs (tab[unat t := Some (Value a)])
         else Inl (Panic IndexOutOfRange))"

text \<open>
  \<open>MakeArchivalRecord\<close>: \<open>Some (Inr (Some r))\<close> is the return \<open>(&r, nil)\<close>,
  \<open>Some (Inr None)\<close> is \<open>(nil, nil)\<close>, \<open>Some (Inl (Error e))\<close> is \<open>(nil, e)\<close>, and \<open>None\<close> is
  a run of the splitter that never ends. The value of an attribute is a part of the
  message buffer and is never nil. \<open>maxAttrType\<close> is a \<open>uint16\<close> and \<open>maxAttrType+1\<close> is
  computed on 16 bits.
\<close>

definition MakeArchivalRecord ::
  "externals \<Rightarrow> NetlinkMessage \<Rightarrow> bool \<Rightarrow> (failure + ArchivalRecord option) option" where
  "MakeArchivalRecord X msg skipLocal =
     (if Type (Header msg) \<noteq> 20 then Some (Inl (Error ErrNotType20))
      else
        (case SplitInetDiagMsg X (Data msg) of
           (None, attrBytes) \<Rightarrow> Some (Inl (Error ErrParseFailed))
         | (Some raw, attrBytes) \<Rightarrow>
             (let rest =
                (case ParseRouteAttr X attrBytes of
                   None \<Rightarrow> None
                 | Some (Inl f) \<Rightarrow> Some (Inl f)
                 | Some (Inr attrs) \<Rightarrow>
                     (let observedMax = maxAttrTypeOf attrs 0;
                          maxAttrType =
                            (if observedMax > word_of_nat (2 * INET_DIAG_MAX)
                             then word_of_nat (2 * INET_DIAG_MAX) else observedMax)
                      in case fillAttributes maxAttrType attrs
                                (replicate (unat (maxAttrType + 1)) None) of
                           Inl f \<Rightarrow> Some (Inl f)
                         | Inr tab \<Rightarrow>
                             Some (Inr (Some \<lparr>Timestamp = 0, RawIDM = Some raw,
                                              Attributes = tab, Metadata = None\<rparr>))))
              in if skipLocal then
                   (case RawInetDiagMsg_Parse X raw of
                      Inl f \<Rightarrow> Some (Inl f)
                    | Inr idm \<Rightarrow>
                        if isLocal X (SrcIP X idm) \<or> isLocal X (DstIP X idm) then Some (Inr None)
                        else rest)
                 else rest)))"

section \<open>One setting of the parameters\<close>

text \<open>
  Modelled from the spec: \<open>netlinkRouteAttrAndValue\<close>, \<open>SplitInetDiagMsg\<close> and
  \<open>RawInetDiagMsg.Parse\<close> belong to the repository and are not among the modelled files.
  The spec (4.2, 4.3, 4.5) gives an attribute a header of a total length and a type,
  followed by the value, the next attribute starting at the length rounded up to 4; it
  lets the extractor fail on a payload shorter than the fixed header, and the header
  parse fail. The definitions below follow that with the sizes of the kernel on a
  little-endian machine: a 4-byte attribute header with the length first, a 72-byte
  diagnostic header. They serve to evaluate the model on concrete inputs; every general
  statement below holds for all parameters.
\<close>

definition rtaAlignOf :: "int \<Rightarrow> int" where
  "rtaAlignOf attrlen = ((attrlen + 3) div 4) * 4"

fun linux_netlinkRouteAttrAndValue :: "byte list \<Rightarrow> failure + (RtAttr \<times> byte list \<times> int)" where
  "linux_netlinkRouteAttrAndValue (l0 # l1 # t0 # t1 # vbuf) =
     (let len = ucast l0 OR push_bit 8 (ucast l1);
          ty = ucast t0 OR push_bit 8 (ucast t1)
      in if uint len < 4 \<or> 4 + int (length vbuf) < uint len then Inl (Error ErrParseFailed)
         else Inr (\<lparr>rta_Len = len, rta_Type = ty\<rparr>, vbuf, rtaAlignOf (uint len)))"
| "linux_netlinkRouteAttrAndValue b = Inl (Panic IndexOutOfRange)"

definition linux_SplitInetDiagMsg :: "byte list \<Rightarrow> byte list option \<times> byte list" where
  "linux_SplitInetDiagMsg data =
     (if length data < 72 then (None, []) else (Some (take 72 data), drop 72 data))"

definition linux_Parse :: "byte list \<Rightarrow> failure + byte list" where
  "linux_Parse raw = (if length raw < 72 then Inl (Error ErrParseFailed) else Inr (take 72 raw))"

text \<open>
  The addresses are the two 16-byte fields of the socket id in the diagnostic header. The
  command extracts records with \<open>skipLocal = false\<close>, and so do the inputs evaluated
  below: the four predicates of \<open>net.IP\<close> are never consulted there, and this setting
  takes no address for local. The structure sizes are those of the kernel's structures.
\<close>

definition linux :: externals where
  "linux =
     \<lparr>native = LittleEndian,
      SizeofRtAttr = 4,
      netlinkRouteAttrAndValue = linux_netlinkRouteAttrAndValue,
      SplitInetDiagMsg = linux_SplitInetDiagMsg,
      RawInetDiagMsg_Parse = linux_Parse,
      SrcIP = (\<lambda>idm. take 16 (drop 8 idm)),
      DstIP = (\<lambda>idm. take 16 (drop 24 idm)),
      IsLoopback = (\<lambda>addr. False),
      IsLinkLocalUnicast = (\<lambda>addr. False),
      IsMulticast = (\<lambda>addr. False),
      IsUnspecified = (\<lambda>addr. False),
      Sizeof_MemInfo = 16,
      Sizeof_LinuxTCPInfo = 232,
      Sizeof_VegasInfo = 16,
      Sizeof_SocketMemInfo = 36,
      Sizeof_DCTCPInfo = 16,
      Sizeof_BBRInfo = 20\<rparr>"

section \<open>Properties of the message classifier\<close>

lemma Uint32_take4: "4 \<le> length d \<Longrightarrow> \<exists>code. Uint32 order (take 4 d) = Inr code"
proof -
  assume "4 \<le> length d"
  then obtain b0 b1 b2 b3 rest where "d = b0 # b1 # b2 # b3 # rest"
    by (cases d; simp; rename_tac a l; case_tac l; simp; rename_tac a l; case_tac l; simp;
        rename_tac a l; case_tac l; simp)
  then show ?thesis by (cases order) simp_all
qed

text \<open>
  Claim C6, as the code has it. A message of type \<open>NLMSG_DONE\<close> whose sequence number and
  process id are the expected ones yields \<open>(nil, false, nil)\<close>: no message, no
  continuation, no error. The two checks of the sequence number and the process id come
  first in the function, so the result does not hold for every expected pair.
\<close>

theorem processSingleMessage_done:
  "Type (Header m) = NLMSG_DONE \<Longrightarrow> Seq (Header m) = seq \<Longrightarrow> Pid (Header m) = pid \<Longrightarrow>
   processSingleMessage order m seq pid = Inr (None, False)"
  by (simp add: processSingleMessage_def)

theorem processSingleMessage_done_witness:
  "processSingleMessage BigEndian
     \<lparr>Header = \<lparr>Len = 20, Type = 3, Flags = 2, Seq = 41, Pid = 900\<rparr>, Data = [0, 0, 0, 0]\<rparr>
     41 900 = Inr (None, False)"
  using processSingleMessage_done
    [where m = "\<lparr>Header = \<lparr>Len = 20, Type = 3, Flags = 2, Seq = 41, Pid = 900\<rparr>,
                   Data = [0, 0, 0, 0]\<rparr>"
       and seq = 41 and pid = 900 and order = BigEndian]
  by (simp add: NLMSG_DONE_def)

text \<open>
  A message of type \<open>NLMSG_DONE\<close> with sequence number 1, classified for the expected
  sequence number 2: the result is the error \<open>ErrBadSequence\<close>, not \<open>(nil, false, nil)\<close>.
\<close>

theorem processSingleMessage_done_counterexample:
  "Type (Header \<lparr>Header = \<lparr>Len = 16, Type = 3, Flags = 0, Seq = 1, Pid = 7\<rparr>, Data = []\<rparr>)
     = NLMSG_DONE
   \<and> processSingleMessage LittleEndian
        \<lparr>Header = \<lparr>Len = 16, Type = 3, Flags = 0, Seq = 1, Pid = 7\<rparr>, Data = []\<rparr> 2 7
     = Inl (Error ErrBadSequence)
   \<and> processSingleMessage LittleEndian
        \<lparr>Header = \<lparr>Len = 16, Type = 3, Flags = 0, Seq = 1, Pid = 7\<rparr>, Data = []\<rparr> 2 7
     \<noteq> Inr (None, False)"
  by (simp add: processSingleMessage_def NLMSG_DONE_def)

text \<open>
  Claim C7. If the sequence number of the message differs from the expected one, or its
  process id does, the classifier returns a non-nil error and no message, whatever the
  type and the flags of the message: \<open>ErrBadSequence\<close> when the sequence number differs,
  \<open>ErrBadPid\<close> when only the process id does. (\<open>Inl (Error e)\<close> is the return
  \<open>(nil, false, e)\<close>.)
\<close>

theorem processSingleMessage_mismatch:
  "Seq (Header m) \<noteq> seq \<or> Pid (Header m) \<noteq> pid \<Longrightarrow>
   processSingleMessage order m seq pid =
     Inl (Error (if Seq (Header m) \<noteq> seq then ErrBadSequence else ErrBadPid))"
  by (auto simp: processSingleMessage_def)

theorem processSingleMessage_mismatch_witness:
  "processSingleMessage LittleEndian
     \<lparr>Header = \<lparr>Len = 16, Type = 20, Flags = 2, Seq = 1, Pid = 7\<rparr>, Data = []\<rparr> 2 7
     = Inl (Error ErrBadSequence)
   \<and> processSingleMessage LittleEndian
     \<lparr>Header = \<lparr>Len = 16, Type = 3, Flags = 0, Seq = 1, Pid = 7\<rparr>, Data = []\<rparr> 1 8
     = Inl (Error ErrBadPid)"
  using processSingleMessage_mismatch
    [where m = "\<lparr>Header = \<lparr>Len = 16, Type = 20, Flags = 2, Seq = 1, Pid = 7\<rparr>, Data = []\<rparr>"
       and seq = 2 and pid = 7 and order = LittleEndian]
    processSingleMessage_mismatch
    [where m = "\<lparr>Header = \<lparr>Len = 16, Type = 3, Flags = 0, Seq = 1, Pid = 7\<rparr>, Data = []\<rparr>"
       and seq = 1 and pid = 8 and order = LittleEndian]
  by simp

text \<open>
  Claim C10, as the code has it. For a message of type \<open>NLMSG_ERROR\<close> that passes the
  checks of the sequence number and the process id: a payload of fewer than 4 bytes
  yields the error \<open>ErrBadMsgData\<close>; otherwise the first 4 bytes are read in the native
  byte order, and the code 0 yields \<open>(nil, false, nil)\<close>. A code that is not 0 is printed
  and not returned: the classifier returns the message itself as accepted, with a nil
  error, and expects a continuation exactly when the multi-part flag is set.
\<close>

theorem processSingleMessage_error:
  assumes "Type (Header m) = NLMSG_ERROR" and "Seq (Header m) = seq" and "Pid (Header m) = pid"
  shows "processSingleMessage order m seq pid =
    (if length (Data m) < 4 then Inl (Error ErrBadMsgData)
     else if Uint32 order (take 4 (Data m)) = Inr 0 then Inr (None, False)
     else Inr (Some m, Flags (Header m) AND NLM_F_MULTI \<noteq> 0))"
proof (cases "length (Data m) < 4")
  case True
  with assms show ?thesis
    by (simp add: processSingleMessage_def NLMSG_DONE_def NLMSG_ERROR_def)
next
  case False
  then obtain code where c: "Uint32 order (take 4 (Data m)) = Inr code"
    using Uint32_take4[of "Data m" order] by auto
  have "sint code = 0 \<longleftrightarrow> code = 0"
    by (simp add: signed_eq_0_iff)
  with assms False c show ?thesis
    by (simp add: processSingleMessage_def NLMSG_DONE_def NLMSG_ERROR_def Let_def)
qed

theorem processSingleMessage_error_witness:
  "processSingleMessage LittleEndian
     \<lparr>Header = \<lparr>Len = 36, Type = 2, Flags = 2, Seq = 5, Pid = 9\<rparr>,
      Data = [243, 255, 255, 255, 0, 0]\<rparr> 5 9
     = Inr (Some \<lparr>Header = \<lparr>Len = 36, Type = 2, Flags = 2, Seq = 5, Pid = 9\<rparr>,
                   Data = [243, 255, 255, 255, 0, 0]\<rparr>, True)
   \<and> processSingleMessage LittleEndian
     \<lparr>Header = \<lparr>Len = 36, Type = 2, Flags = 2, Seq = 5, Pid = 9\<rparr>,
      Data = [0, 0, 0, 0, 1]\<rparr> 5 9
     = Inr (None, False)
   \<and> processSingleMessage LittleEndian
     \<lparr>Header = \<lparr>Len = 36, Type = 2, Flags = 2, Seq = 5, Pid = 9\<rparr>,
      Data = [1, 0, 0]\<rparr> 5 9
     = Inl (Error ErrBadMsgData)"
  using processSingleMessage_error
    [where m = "\<lparr>Header = \<lparr>Len = 36, Type = 2, Flags = 2, Seq = 5, Pid = 9\<rparr>,
                   Data = [243, 255, 255, 255, 0, 0]\<rparr>"
       and seq = 5 and pid = 9 and order = LittleEndian]
    processSingleMessage_error
    [where m = "\<lparr>Header = \<lparr>Len = 36, Type = 2, Flags = 2, Seq = 5, Pid = 9\<rparr>,
                   Data = [0, 0, 0, 0, 1]\<rparr>"
       and seq = 5 and pid = 9 and order = LittleEndian]
    processSingleMessage_error
    [where m = "\<lparr>Header = \<lparr>Len = 36, Type = 2, Flags = 2, Seq = 5, Pid = 9\<rparr>,
                   Data = [1, 0, 0]\<rparr>"
       and seq = 5 and pid = 9 and order = LittleEndian]
  by (simp add: NLMSG_ERROR_def NLM_F_MULTI_def)

text \<open>
  A message of type \<open>NLMSG_ERROR\<close> that carries the code -2 and passes both checks: the
  classifier returns the message with a nil error, so no error value reaches the caller.
\<close>

theorem processSingleMessage_error_counterexample:
  "processSingleMessage LittleEndian
     \<lparr>Header = \<lparr>Len = 20, Type = 2, Flags = 0, Seq = 1, Pid = 7\<rparr>,
      Data = [254, 255, 255, 255]\<rparr> 1 7
   = Inr (Some \<lparr>Header = \<lparr>Len = 20, Type = 2, Flags = 0, Seq = 1, Pid = 7\<rparr>,
                 Data = [254, 255, 255, 255]\<rparr>, False)"
  by (simp add: processSingleMessage_def NLMSG_DONE_def NLMSG_ERROR_def NLM_F_MULTI_def)

section \<open>Properties of the attribute codec\<close>

lemma copy_bytes_pad:
  "length src < n \<Longrightarrow> copy_bytes (replicate n 0) src = src @ replicate (n - length src) 0"
  by (simp add: copy_bytes_def)

lemma maybeCopy_short:
  "length src < n \<Longrightarrow> maybeCopy src n msgType = Inr (src @ replicate (n - length src) 0, True)"
  by (simp add: maybeCopy_def copy_bytes_pad Let_def)

text \<open>
  Claim C1, as the code has it. For each of the six codecs of a fixed-size structure and
  every buffer strictly shorter than the structure, decoding does not fail: it returns
  the structure whose leading bytes are the buffer and whose remaining bytes are zero,
  together with \<open>ok = true\<close>. (\<open>maybeCopy\<close> returns \<open>true\<close> on its copying branch; only a
  buffer longer than the structure gives \<open>false\<close>.)
\<close>

theorem codec_short:
  "(length raw < Sizeof_MemInfo X \<longrightarrow>
      toMemInfo X raw = Inr (raw @ replicate (Sizeof_MemInfo X - length raw) 0, True))
 \<and> (length raw < Sizeof_LinuxTCPInfo X \<longrightarrow>
      toLinuxTCPInfo X raw = Inr (raw @ replicate (Sizeof_LinuxTCPInfo X - length raw) 0, True))
 \<and> (length raw < Sizeof_VegasInfo X \<longrightarrow>
      toVegasInfo X raw = Inr (raw @ replicate (Sizeof_VegasInfo X - length raw) 0, True))
 \<and> (length raw < Sizeof_SocketMemInfo X \<longrightarrow>
      toSockMemInfo X raw = Inr (raw @ replicate (Sizeof_SocketMemInfo X - length raw) 0, True))
 \<and> (length raw < Sizeof_DCTCPInfo X \<longrightarrow>
      toDCTCPInfo X raw = Inr (raw @ replicate (Sizeof_DCTCPInfo X - length raw) 0, True))
 \<and> (length raw < Sizeof_BBRInfo X \<longrightarrow>
      toBBRInfo X raw = Inr (raw @ replicate (Sizeof_BBRInfo X - length raw) 0, True))"
  by (simp add: toMemInfo_def toLinuxTCPInfo_def toVegasInfo_def toSockMemInfo_def
      toDCTCPInfo_def toBBRInfo_def maybeCopy_short)

theorem codec_short_witness:
  "toMemInfo linux [1, 2, 3] = Inr ([1, 2, 3] @ replicate 13 0, True)
 \<and> toLinuxTCPInfo linux [1, 2, 3] = Inr ([1, 2, 3] @ replicate 229 0, True)
 \<and> toVegasInfo linux [1, 2, 3] = Inr ([1, 2, 3] @ replicate 13 0, True)
 \<and> toSockMemInfo linux [1, 2, 3] = Inr ([1, 2, 3] @ replicate 33 0, True)
 \<and> toDCTCPInfo linux [1, 2, 3] = Inr ([1, 2, 3] @ replicate 13 0, True)
 \<and> toBBRInfo linux [1, 2, 3] = Inr ([1, 2, 3] @ replicate 17 0, True)"
  using codec_short [of "[1, 2, 3]" linux]
  by (simp add: linux_def)

text \<open>
  A memory-info attribute of 5 bytes against a structure of 16: the value is padded with
  zeros and the flag is \<open>true\<close>, not \<open>false\<close>.
\<close>

theorem codec_short_counterexample:
  "length [7, 0, 0, 0, 9 :: byte] < Sizeof_MemInfo linux
 \<and> toMemInfo linux [7, 0, 0, 0, 9] =
     Inr ([7, 0, 0, 0, 9, 0, 0, 0, 0, 0, 0, 0, 0, 0, 0, 0], True)"
  by code_simp

section \<open>Properties of the attribute splitter\<close>

text \<open>
  Claim C5, as the code has it. On every buffer shorter than the attribute header, empty
  or not, the splitter returns the empty sequence and no error: the loop is not entered
  and the bytes left over are dropped.
\<close>

theorem ParseRouteAttr_short:
  "int (length b) < SizeofRtAttr X \<Longrightarrow> ParseRouteAttr X b = Some (Inr [])"
  unfolding ParseRouteAttr_def
  by (subst ParseRouteAttr_loop.simps) simp

theorem ParseRouteAttr_short_witness:
  "ParseRouteAttr linux [0, 0] = Some (Inr []) \<and> ParseRouteAttr linux [] = Some (Inr [])"
  using ParseRouteAttr_short [of "[0, 0]" linux] ParseRouteAttr_short [of "[]" linux]
  by (simp add: linux_def)

text \<open>
  A buffer of three bytes, with a header size of 4: the result is the empty sequence with
  a nil error.
\<close>

theorem ParseRouteAttr_short_counterexample:
  "[1, 2, 3 :: byte] \<noteq> [] \<and> int (length [1, 2, 3 :: byte]) < SizeofRtAttr linux
   \<and> ParseRouteAttr linux [1, 2, 3] = Some (Inr [])"
  by code_simp

section \<open>Properties of the record extractor\<close>

lemma Max_insert2:
  assumes "finite S"
  shows "Max (insert (a::nat) (insert b S)) = Max (insert (max a b) S)"
proof (cases "S = {}")
  case True
  then show ?thesis by (simp add: max.commute)
next
  case False
  with assms show ?thesis by (simp add: max.assoc)
qed

lemma maxAttrTypeOf_unat:
  "unat (maxAttrTypeOf attrs m) =
     Max (insert (unat m) (set (map (\<lambda>a. unat (rta_Type (Attr a))) attrs)))"
proof (induction attrs arbitrary: m)
  case Nil
  show ?case by simp
next
  case (Cons a attrs)
  have "unat (if m < rta_Type (Attr a) then rta_Type (Attr a) else m)
          = max (unat m) (unat (rta_Type (Attr a)))"
    by (simp add: word_less_nat_alt max_def)
  with Cons.IH[of "if m < rta_Type (Attr a) then rta_Type (Attr a) else m"]
  show ?case
    by (simp add: Let_def Max_insert2 del: Max_insert)
qed

lemma fillAttributes_spec:
  "length tab = unat m + 1 \<Longrightarrow>
   \<exists>tab'. fillAttributes m attrs tab = Inr tab' \<and> length tab' = length tab \<and>
     (\<forall>i<length tab. tab' ! i =
        (case map_of (rev (map (\<lambda>a. (unat (rta_Type (Attr a)), Value a)) attrs)) i of
           Some v \<Rightarrow> Some v | None \<Rightarrow> tab ! i))"
proof (induction attrs arbitrary: tab)
  case Nil
  then show ?case by simp
next
  case (Cons a attrs)
  let ?t = "rta_Type (Attr a)"
  show ?case
  proof (cases "m < ?t")
    case True
    then have big: "unat m < unat ?t" by (simp add: word_less_nat_alt)
    from Cons.IH[OF Cons.prems] obtain tab' where
      f: "fillAttributes m attrs tab = Inr tab'" and len: "length tab' = length tab" and
      v: "\<forall>i<length tab. tab' ! i =
        (case map_of (rev (map (\<lambda>a. (unat (rta_Type (Attr a)), Value a)) attrs)) i of
           Some v \<Rightarrow> Some v | None \<Rightarrow> tab ! i)" by blast
    from True f have "fillAttributes m (a # attrs) tab = Inr tab'" by (simp add: Let_def)
    moreover have "\<forall>i<length tab. tab' ! i =
        (case map_of (rev (map (\<lambda>a. (unat (rta_Type (Attr a)), Value a)) (a # attrs))) i of
           Some v \<Rightarrow> Some v | None \<Rightarrow> tab ! i)"
      using v big Cons.prems by (auto simp: map_add_def split: option.splits)
    ultimately show ?thesis using len by simp
  next
    case False
    then have small: "unat ?t \<le> unat m" by (simp add: word_less_nat_alt)
    with Cons.prems have inr: "unat ?t < length tab" by simp
    let ?tab1 = "tab[unat ?t := Some (Value a)]"
    from Cons.prems have "length ?tab1 = unat m + 1" by simp
    from Cons.IH[OF this] obtain tab' where
      f: "fillAttributes m attrs ?tab1 = Inr tab'" and len: "length tab' = length ?tab1" and
      v: "\<forall>i<length ?tab1. tab' ! i =
        (case map_of (rev (map (\<lambda>a. (unat (rta_Type (Attr a)), Value a)) attrs)) i of
           Some v \<Rightarrow> Some v | None \<Rightarrow> ?tab1 ! i)" by blast
    from False inr f have "fillAttributes m (a # attrs) tab = Inr tab'" by (simp add: Let_def)
    moreover have "\<forall>i<length tab. tab' ! i =
        (case map_of (rev (map (\<lambda>a. (unat (rta_Type (Attr a)), Value a)) (a # attrs))) i of
           Some v \<Rightarrow> Some v | None \<Rightarrow> tab ! i)"
      using v inr by (auto simp: map_add_def nth_list_update split: option.splits)
    ultimately show ?thesis using len by simp
  qed
qed

lemma clamp_unat:
  "unat (if (c::16 word) > word_of_nat (2 * INET_DIAG_MAX) then word_of_nat (2 * INET_DIAG_MAX) else c)
     = min (unat c) (2 * INET_DIAG_MAX)"
  by (simp add: INET_DIAG_MAX_def word_less_nat_alt min_def)

lemma unat_plus1_small: "unat (w::16 word) \<le> 38 \<Longrightarrow> unat (w + 1) = unat w + 1"
  by (simp add: unat_word_ariths)

text \<open>
  Claim C9. For a message of type 20 whose payload splits into a header and attribute
  bytes, whose attribute bytes the splitter accepts, and which the filter on local
  addresses does not drop, \<open>MakeArchivalRecord\<close> returns a record, whatever the types of
  the attributes are. The table of the record has length
  \<open>min (largest type) (2 * INET_DIAG_MAX) + 1\<close> (the largest type is 0 when there is no
  attribute); every attribute of a type beyond that bound is skipped; and the entry at a
  type \<open>t\<close> is the value of the last attribute of type \<open>t\<close>, or nil when there is none.
\<close>

theorem MakeArchivalRecord_table:
  assumes "Type (Header msg) = 20"
    and "SplitInetDiagMsg X (Data msg) = (Some raw, attrBytes)"
    and "ParseRouteAttr X attrBytes = Some (Inr attrs)"
    and "skipLocal \<longrightarrow>
           (\<exists>idm. RawInetDiagMsg_Parse X raw = Inr idm
                  \<and> \<not> isLocal X (SrcIP X idm) \<and> \<not> isLocal X (DstIP X idm))"
  shows "\<exists>tab.
     MakeArchivalRecord X msg skipLocal =
       Some (Inr (Some \<lparr>Timestamp = 0, RawIDM = Some raw, Attributes = tab, Metadata = None\<rparr>))
   \<and> length tab =
       min (Max (insert 0 (set (map (\<lambda>a. unat (rta_Type (Attr a))) attrs)))) (2 * INET_DIAG_MAX) + 1
   \<and> (\<forall>t<length tab.
        tab ! t = map_of (rev (map (\<lambda>a. (unat (rta_Type (Attr a)), Value a)) attrs)) t)"
proof -
  define observedMax where "observedMax = maxAttrTypeOf attrs 0"
  define m where "m = (if observedMax > word_of_nat (2 * INET_DIAG_MAX)
                       then word_of_nat (2 * INET_DIAG_MAX) else observedMax)"
  have um: "unat m = min (Max (insert 0 (set (map (\<lambda>a. unat (rta_Type (Attr a))) attrs))))
                       (2 * INET_DIAG_MAX)"
    unfolding m_def clamp_unat observedMax_def maxAttrTypeOf_unat by simp
  then have "unat m \<le> 38" by (simp add: INET_DIAG_MAX_def)
  then have len0: "length (replicate (unat (m + 1)) (None :: byte list option)) = unat m + 1"
    by (simp add: unat_plus1_small)
  from fillAttributes_spec[OF len0, of attrs] obtain tab where
    f: "fillAttributes m attrs (replicate (unat (m + 1)) None) = Inr tab" and
    len: "length tab = unat m + 1" and
    v: "\<forall>i<unat m + 1. tab ! i =
        (case map_of (rev (map (\<lambda>a. (unat (rta_Type (Attr a)), Value a)) attrs)) i of
           Some v \<Rightarrow> Some v | None \<Rightarrow> replicate (unat (m + 1)) None ! i)"
    using len0 by auto
  have "MakeArchivalRecord X msg skipLocal =
       Some (Inr (Some \<lparr>Timestamp = 0, RawIDM = Some raw, Attributes = tab, Metadata = None\<rparr>))"
    using assms f unfolding m_def observedMax_def
    by (auto simp: MakeArchivalRecord_def Let_def split: if_splits)
  moreover have "\<forall>t<length tab.
        tab ! t = map_of (rev (map (\<lambda>a. (unat (rta_Type (Attr a)), Value a)) attrs)) t"
  proof (intro allI impI)
    fix t assume t: "t < length tab"
    with len len0 have "replicate (unat (m + 1)) (None :: byte list option) ! t = None"
      by (intro nth_replicate) simp
    with v t len show
      "tab ! t = map_of (rev (map (\<lambda>a. (unat (rta_Type (Attr a)), Value a)) attrs)) t"
      by (simp split: option.splits)
  qed
  ultimately show ?thesis using len um by auto
qed

theorem MakeArchivalRecord_table_witness:
  "\<exists>tab.
     MakeArchivalRecord linux
       \<lparr>Header = \<lparr>Len = 120, Type = 20, Flags = 2, Seq = 1, Pid = 7\<rparr>,
        Data = replicate 72 0 @
          [5, 0, 4, 0, 99, 0, 0, 0,  5, 0, 4, 0, 98, 0, 0, 0,
           6, 0, 50, 0, 1, 2, 0, 0,  5, 0, 1, 0, 7, 0, 0, 0]\<rparr> False =
       Some (Inr (Some \<lparr>Timestamp = 0, RawIDM = Some (replicate 72 0), Attributes = tab,
                         Metadata = None\<rparr>))
   \<and> length tab = 39 \<and> tab ! 0 = None \<and> tab ! 1 = Some [7] \<and> tab ! 4 = Some [98]
   \<and> tab ! 38 = None"
proof -
  let ?msg = "\<lparr>Header = \<lparr>Len = 120, Type = 20, Flags = 2, Seq = 1, Pid = 7\<rparr>,
        Data = replicate 72 0 @
          [5, 0, 4, 0, 99, 0, 0, 0,  5, 0, 4, 0, 98, 0, 0, 0,
           6, 0, 50, 0, 1, 2, 0, 0,  5, 0, 1, 0, 7, 0, 0, 0 :: byte]\<rparr>"
  let ?attrBytes = "[5, 0, 4, 0, 99, 0, 0, 0,  5, 0, 4, 0, 98, 0, 0, 0,
           6, 0, 50, 0, 1, 2, 0, 0,  5, 0, 1, 0, 7, 0, 0, 0 :: byte]"
  let ?attrs = "[\<lparr>Attr = \<lparr>rta_Len = 5, rta_Type = 4\<rparr>, Value = [99]\<rparr>,
        \<lparr>Attr = \<lparr>rta_Len = 5, rta_Type = 4\<rparr>, Value = [98]\<rparr>,
        \<lparr>Attr = \<lparr>rta_Len = 6, rta_Type = 50\<rparr>, Value = [1, 2]\<rparr>,
        \<lparr>Attr = \<lparr>rta_Len = 5, rta_Type = 1\<rparr>, Value = [7 :: byte]\<rparr>]"
  have ty: "Type (Header ?msg) = 20"
    by simp
  have sp: "SplitInetDiagMsg linux (Data ?msg) = (Some (replicate 72 0), ?attrBytes)"
    by code_simp
  have pa: "ParseRouteAttr linux ?attrBytes = Some (Inr ?attrs)"
    by code_simp
  have sk: "False \<longrightarrow>
           (\<exists>idm. RawInetDiagMsg_Parse linux (replicate 72 0) = Inr idm
                  \<and> \<not> isLocal linux (SrcIP linux idm) \<and> \<not> isLocal linux (DstIP linux idm))"
    by simp
  from MakeArchivalRecord_table [OF ty sp pa sk] obtain tab where
    m: "MakeArchivalRecord linux ?msg False =
       Some (Inr (Some \<lparr>Timestamp = 0, RawIDM = Some (replicate 72 0), Attributes = tab,
                         Metadata = None\<rparr>))" and
    len: "length tab =
       min (Max (insert 0 (set (map (\<lambda>a. unat (rta_Type (Attr a))) ?attrs)))) (2 * INET_DIAG_MAX) + 1" and
    v: "\<forall>t<length tab.
        tab ! t = map_of (rev (map (\<lambda>a. (unat (rta_Type (Attr a)), Value a)) ?attrs)) t"
    by blast
  from len have len39: "length tab = 39"
    by (simp add: INET_DIAG_MAX_def)
  with v have "tab ! 0 = None" "tab ! 1 = Some [7]" "tab ! 4 = Some [98]" "tab ! 38 = None"
    by simp_all
  with m len39 show ?thesis by blast
qed

section \<open>Properties of the snapshot assembler\<close>

lemma Decode_attr_bits:
  "Decode_attr X t raw r = Inr (r', ok) \<Longrightarrow> Observed r' = Observed r \<and> NotFullyParsed r' = NotFullyParsed r"
  by (auto simp: Decode_attr_def split: if_splits sum.splits prod.splits)

lemma bit_attrBit: "bit (attrBit t) k \<longleftrightarrow> k < 32 \<and> k = unat (word_of_int (int t - 1) :: 8 word)"
  unfolding attrBit_def by (auto simp: bit_exp_iff)

lemma shift_small:
  assumes "1 \<le> t" "t \<le> 256"
  shows "unat (word_of_int (int t - 1) :: 8 word) = t - 1"
proof -
  from assms have "int t - 1 = int (t - 1)" by simp
  then have "(word_of_int (int t - 1) :: 8 word) = word_of_nat (t - 1)" by (simp only: of_int_of_nat_eq)
  moreover from assms have "(t - 1) mod 256 = t - 1" by simp
  ultimately show ?thesis by (simp add: unat_of_nat)
qed

lemma shift_zero: "unat (word_of_int (int 0 - 1) :: 8 word) = 255"
proof -
  have "(word_of_int (int 0 - 1) :: 8 word) = 255" by simp
  then show ?thesis by (simp only: unat_numeral) simp
qed

lemma bit_attrBit_small: "1 \<le> t \<Longrightarrow> t \<le> 256 \<Longrightarrow> bit (attrBit t) k \<longleftrightarrow> k < 32 \<and> k = t - 1"
  by (simp only: bit_attrBit shift_small)

lemma bit_attrBit_zero: "\<not> bit (attrBit 0) k"
  by (simp only: bit_attrBit shift_zero) simp

lemma Decode_loop_Some:
  assumes "Decode_loop X t (Some raw # rest) r = Inr r'"
  shows "\<exists>r1 ok r2. Decode_attr X t raw r = Inr (r1, ok) \<and> Decode_loop X (Suc t) rest r2 = Inr r'
           \<and> Observed r2 = Observed r OR attrBit t
           \<and> NotFullyParsed r2 = (if ok then NotFullyParsed r else NotFullyParsed r OR attrBit t)"
proof -
  from assms obtain r1 ok where d: "Decode_attr X t raw r = Inr (r1, ok)"
    by (auto split: sum.splits)
  from Decode_attr_bits[OF d] have b: "Observed r1 = Observed r" "NotFullyParsed r1 = NotFullyParsed r"
    by simp_all
  show ?thesis
  proof (cases ok)
    case True
    with assms d have "Decode_loop X (Suc t) rest (r1\<lparr>Observed := Observed r1 OR attrBit t\<rparr>) = Inr r'"
      by (simp add: Let_def)
    with d b True show ?thesis by fastforce
  next
    case False
    with assms d have "Decode_loop X (Suc t) rest
        (r1\<lparr>Observed := Observed r1 OR attrBit t, NotFullyParsed := NotFullyParsed r1 OR attrBit t\<rparr>) = Inr r'"
      by (simp add: Let_def)
    with d b False show ?thesis by fastforce
  qed
qed

lemma Decode_loop_Observed:
  "Decode_loop X t attrs r = Inr r' \<Longrightarrow>
     bit (Observed r') k \<longleftrightarrow>
       bit (Observed r) k \<or> (\<exists>i<length attrs. attrs ! i \<noteq> None \<and> bit (attrBit (t + i)) k)"
proof (induction attrs arbitrary: t r)
  case Nil
  then show ?case by simp
next
  case (Cons a attrs)
  show ?case
  proof (cases a)
    case None
    with Cons.prems have "Decode_loop X (Suc t) attrs r = Inr r'" by simp
    from Cons.IH[OF this] None show ?thesis
      by (auto simp: less_Suc_eq_0_disj)
  next
    case (Some raw)
    with Cons.prems obtain r2 where
      l: "Decode_loop X (Suc t) attrs r2 = Inr r'" and o: "Observed r2 = Observed r OR attrBit t"
      using Decode_loop_Some by blast
    from Cons.IH[OF l] o Some show ?thesis
      by (auto simp: less_Suc_eq_0_disj bit_or_iff)
  qed
qed


lemma Decode_loop_subset:
  "Decode_loop X t attrs r = Inr r' \<Longrightarrow> (\<forall>k. bit (NotFullyParsed r) k \<longrightarrow> bit (Observed r) k) \<Longrightarrow>
     bit (NotFullyParsed r') k \<Longrightarrow> bit (Observed r') k"
proof (induction attrs arbitrary: t r)
  case Nil
  then show ?case by simp
next
  case (Cons a attrs)
  show ?case
  proof (cases a)
    case None
    with Cons.prems have "Decode_loop X (Suc t) attrs r = Inr r'" by simp
    from Cons.IH[OF this Cons.prems(2) Cons.prems(3)] show ?thesis .
  next
    case (Some raw)
    with Cons.prems obtain ok r2 where
      l: "Decode_loop X (Suc t) attrs r2 = Inr r'" and o: "Observed r2 = Observed r OR attrBit t"
      and n: "NotFullyParsed r2 = (if ok then NotFullyParsed r else NotFullyParsed r OR attrBit t)"
      using Decode_loop_Some by blast
    from o n Cons.prems(2) have "\<forall>k. bit (NotFullyParsed r2) k \<longrightarrow> bit (Observed r2) k"
      by (auto simp: bit_or_iff)
    from Cons.IH[OF l this Cons.prems(3)] show ?thesis .
  qed
qed

lemma Decode_loop_mono:
  "Decode_loop X t attrs r = Inr r' \<Longrightarrow> bit (NotFullyParsed r) k \<Longrightarrow> bit (NotFullyParsed r') k"
proof (induction attrs arbitrary: t r)
  case Nil
  then show ?case by simp
next
  case (Cons a attrs)
  show ?case
  proof (cases a)
    case None
    with Cons.prems have "Decode_loop X (Suc t) attrs r = Inr r'" by simp
    from Cons.IH[OF this Cons.prems(2)] show ?thesis .
  next
    case (Some raw)
    with Cons.prems obtain ok r2 where
      l: "Decode_loop X (Suc t) attrs r2 = Inr r'" 
      and n: "NotFullyParsed r2 = (if ok then NotFullyParsed r else NotFullyParsed r OR attrBit t)"
      using Decode_loop_Some by blast
    from n Cons.prems(2) have "bit (NotFullyParsed r2) k"
      by (auto simp: bit_or_iff)
    from Cons.IH[OF l this] show ?thesis .
  qed
qed

lemma Decode_attr_notDecoded:
  "t \<in> {INET_DIAG_SKV6ONLY, INET_DIAG_LOCALS, INET_DIAG_PEERS, INET_DIAG_PAD, INET_DIAG_MD5SIG} \<Longrightarrow> Decode_attr X t raw r = Inr (r, False)"
  by (auto simp: Decode_attr_def INET_DIAG_MEMINFO_def INET_DIAG_INFO_def INET_DIAG_VEGASINFO_def
      INET_DIAG_CONG_def INET_DIAG_TOS_def INET_DIAG_TCLASS_def INET_DIAG_SKMEMINFO_def
      INET_DIAG_SHUTDOWN_def INET_DIAG_DCTCPINFO_def INET_DIAG_PROTOCOL_def INET_DIAG_SKV6ONLY_def
      INET_DIAG_LOCALS_def INET_DIAG_PEERS_def INET_DIAG_PAD_def INET_DIAG_MARK_def
      INET_DIAG_BBRINFO_def INET_DIAG_CLASS_ID_def INET_DIAG_MD5SIG_def)

lemma Decode_loop_notDecoded:
  "Decode_loop X t attrs r = Inr r' \<Longrightarrow> i < length attrs \<Longrightarrow> attrs ! i \<noteq> None \<Longrightarrow>
   t + i \<in> {INET_DIAG_SKV6ONLY, INET_DIAG_LOCALS, INET_DIAG_PEERS, INET_DIAG_PAD, INET_DIAG_MD5SIG} \<Longrightarrow>
   bit (attrBit (t + i)) k \<Longrightarrow> bit (NotFullyParsed r') k"
proof (induction attrs arbitrary: t r i)
  case Nil
  then show ?case by simp
next
  case (Cons a attrs)
  show ?case
  proof (cases a)
    case None
    with Cons.prems have l: "Decode_loop X (Suc t) attrs r = Inr r'" by simp
    from None Cons.prems obtain j where j: "i = Suc j" by (cases i) auto
    with Cons.prems have "j < length attrs" "attrs ! j \<noteq> None" 
       "Suc t + j \<in> {INET_DIAG_SKV6ONLY, INET_DIAG_LOCALS, INET_DIAG_PEERS, INET_DIAG_PAD, INET_DIAG_MD5SIG}" 
       "bit (attrBit (Suc t + j)) k" by simp_all
    from Cons.IH[OF l this] show ?thesis .
  next
    case (Some raw)
    with Cons.prems obtain r1 ok r2 where
      d: "Decode_attr X t raw r = Inr (r1, ok)" and
      l: "Decode_loop X (Suc t) attrs r2 = Inr r'" 
      and n: "NotFullyParsed r2 = (if ok then NotFullyParsed r else NotFullyParsed r OR attrBit t)"
      using Decode_loop_Some by blast
    show ?thesis
    proof (cases i)
      case 0
      with Cons.prems have "Decode_attr X t raw r = Inr (r, False)"
        using Decode_attr_notDecoded[of t X raw r] by simp
      with d have "\<not> ok" by simp
      with n 0 Cons.prems(5) have "bit (NotFullyParsed r2) k" by (simp add: bit_or_iff)
      from Decode_loop_mono[OF l this] show ?thesis .
    next
      case (Suc j)
      with Cons.prems have "j < length attrs" "attrs ! j \<noteq> None" 
       "Suc t + j \<in> {INET_DIAG_SKV6ONLY, INET_DIAG_LOCALS, INET_DIAG_PEERS, INET_DIAG_PAD, INET_DIAG_MD5SIG}" 
       "bit (attrBit (Suc t + j)) k" by simp_all
      from Cons.IH[OF l this] show ?thesis .
    qed
  qed
qed

lemma Decode_Inr:
  assumes "Decode X ar = Inr (md, snap)"
  shows "\<exists>r. Observed r = 0 \<and> NotFullyParsed r = 0 \<and> Decode_loop X 0 (Attributes ar) r = Inr snap"
proof (cases "RawIDM ar")
  case None
  with assms have
    "Decode_loop X 0 (Attributes ar) (zeroSnapshot\<lparr>SnapshotTimestamp := Timestamp ar\<rparr>) = Inr snap"
    by (auto simp: Decode_def Let_def split: if_splits sum.splits)
  moreover have "Observed (zeroSnapshot\<lparr>SnapshotTimestamp := Timestamp ar\<rparr>) = 0"
    "NotFullyParsed (zeroSnapshot\<lparr>SnapshotTimestamp := Timestamp ar\<rparr>) = 0"
    by (simp_all add: zeroSnapshot_def)
  ultimately show ?thesis by blast
next
  case (Some raw)
  with assms obtain idm where
    "Decode_loop X 0 (Attributes ar)
       (zeroSnapshot\<lparr>SnapshotTimestamp := Timestamp ar, InetDiagMsg := Some idm\<rparr>) = Inr snap"
    by (auto simp: Decode_def Let_def split: if_splits sum.splits)
  moreover have
    "Observed (zeroSnapshot\<lparr>SnapshotTimestamp := Timestamp ar, InetDiagMsg := Some idm\<rparr>) = 0"
    "NotFullyParsed (zeroSnapshot\<lparr>SnapshotTimestamp := Timestamp ar, InetDiagMsg := Some idm\<rparr>) = 0"
    by (simp_all add: zeroSnapshot_def)
  ultimately show ?thesis by blast
qed

text \<open>
  Claim C2, as the code has it. The bit of the table index \<open>T\<close> is bit \<open>T - 1\<close> of a 32-bit
  mask, computed with a shift count of eight bits. So for every record that \<open>Decode\<close>
  accepts and whose table has at most 257 entries, and every \<open>T\<close> from 1 to 32: bit
  \<open>T - 1\<close> of \<open>Observed\<close> is set if and only if the table has a non-nil entry at index
  \<open>T\<close>. Every bit set in \<open>NotFullyParsed\<close> is set in \<open>Observed\<close>. (Index 0 and the
  indices from 33 to 256 set no bit.)
\<close>

theorem Decode_bits:
  assumes "Decode X ar = Inr (md, snap)"
    and "length (Attributes ar) \<le> 257"
    and "1 \<le> T" and "T \<le> 32"
  shows "(bit (Observed snap) (T - 1) \<longleftrightarrow> T < length (Attributes ar) \<and> Attributes ar ! T \<noteq> None)
       \<and> (\<forall>k. bit (NotFullyParsed snap) k \<longrightarrow> bit (Observed snap) k)"
proof -
  from Decode_Inr[OF assms(1)] obtain r where
    r: "Observed r = 0" "NotFullyParsed r = 0" and l: "Decode_loop X 0 (Attributes ar) r = Inr snap"
    by blast
  have sub: "\<forall>k. bit (NotFullyParsed snap) k \<longrightarrow> bit (Observed snap) k"
    using Decode_loop_subset[OF l] r by simp
  have shift: "bit (attrBit i) (T - 1) \<longleftrightarrow> i = T"
    if "i < length (Attributes ar)" for i
  proof (cases "i = 0")
    case True
    with bit_attrBit_zero assms(3) show ?thesis by simp
  next
    case False
    with that assms(2) have "bit (attrBit i) (T - 1) \<longleftrightarrow> T - 1 < 32 \<and> T - 1 = i - 1"
      by (intro bit_attrBit_small) simp_all
    with False assms(3,4) show ?thesis by auto
  qed
  have "bit (Observed snap) (T - 1) \<longleftrightarrow>
          (\<exists>i<length (Attributes ar). Attributes ar ! i \<noteq> None \<and> bit (attrBit i) (T - 1))"
    using Decode_loop_Observed[OF l, of "T - 1"] r by simp
  also have "\<dots> \<longleftrightarrow> (\<exists>i<length (Attributes ar). Attributes ar ! i \<noteq> None \<and> i = T)"
    using shift by blast
  also have "\<dots> \<longleftrightarrow> T < length (Attributes ar) \<and> Attributes ar ! T \<noteq> None"
    by auto
  finally show ?thesis using sub by simp
qed

theorem Decode_bits_witness:
  "Decode linux
     \<lparr>Timestamp = 1700000000, RawIDM = Some (replicate 72 0),
      Attributes = [None, None, None, None, Some [99, 117, 98, 105, 99, 0], Some [16]],
      Metadata = None\<rparr>
   = Inr (None,
       \<lparr>SnapshotTimestamp = 1700000000, Observed = 24, NotFullyParsed = 0,
        InetDiagMsg = Some (replicate 72 0), CongestionAlgorithmName = ''cubic'', TOS = 16,
        TClass = 0, ClassID = 0, Shutdown = 0, Protocol = 0, Mark = 0, TCPInfo = None,
        MemInfo = None, SocketMem = None, VegasInfo = None, DCTCPInfo = None, BBRInfo = None\<rparr>)
   \<and> bit (24 :: 32 word) (5 - 1) \<and> \<not> bit (24 :: 32 word) (2 - 1)"
proof -
  let ?ar = "\<lparr>Timestamp = 1700000000, RawIDM = Some (replicate 72 0),
      Attributes = [None, None, None, None, Some [99, 117, 98, 105, 99, 0], Some [16]],
      Metadata = None\<rparr>"
  let ?snap = "\<lparr>SnapshotTimestamp = 1700000000, Observed = 24, NotFullyParsed = 0,
        InetDiagMsg = Some (replicate 72 0), CongestionAlgorithmName = ''cubic'', TOS = 16,
        TClass = 0, ClassID = 0, Shutdown = 0, Protocol = 0, Mark = 0, TCPInfo = None,
        MemInfo = None, SocketMem = None, VegasInfo = None, DCTCPInfo = None, BBRInfo = None\<rparr>"
  have d: "Decode linux ?ar = Inr (None, ?snap)"
    by code_simp
  have l: "length (Attributes ?ar) \<le> 257"
    by simp
  from Decode_bits [OF d l, of 5] Decode_bits [OF d l, of 2] d
  show ?thesis by simp
qed

text \<open>
  A table with a non-nil entry at index 33, and one with a non-nil entry at index 0: both
  records are accepted and \<open>Observed\<close> is 0, so no bit stands for the entry.
\<close>

theorem Decode_bits_counterexample:
  "(replicate 33 None @ [Some [1 :: byte]]) ! 33 \<noteq> None
   \<and> Decode linux
       \<lparr>Timestamp = 0, RawIDM = Some (replicate 72 0),
        Attributes = replicate 33 None @ [Some [1]], Metadata = None\<rparr>
     = Inr (None,
         \<lparr>SnapshotTimestamp = 0, Observed = 0, NotFullyParsed = 0,
          InetDiagMsg = Some (replicate 72 0), CongestionAlgorithmName = [], TOS = 0,
          TClass = 0, ClassID = 0, Shutdown = 0, Protocol = 0, Mark = 0, TCPInfo = None,
          MemInfo = None, SocketMem = None, VegasInfo = None, DCTCPInfo = None, BBRInfo = None\<rparr>)
   \<and> [Some [1 :: byte]] ! 0 \<noteq> None
   \<and> Decode linux
       \<lparr>Timestamp = 0, RawIDM = Some (replicate 72 0),
        Attributes = [Some [1]], Metadata = None\<rparr>
     = Inr (None,
         \<lparr>SnapshotTimestamp = 0, Observed = 0, NotFullyParsed = 0,
          InetDiagMsg = Some (replicate 72 0), CongestionAlgorithmName = [], TOS = 0,
          TClass = 0, ClassID = 0, Shutdown = 0, Protocol = 0, Mark = 0, TCPInfo = None,
          MemInfo = None, SocketMem = None, VegasInfo = None, DCTCPInfo = None, BBRInfo = None\<rparr>)"
  by code_simp

text \<open>
  Claim C3, as the code has it. For a record that \<open>Decode\<close> accepts and whose table has a
  non-nil entry at \<open>INET_DIAG_SKV6ONLY\<close>, \<open>INET_DIAG_LOCALS\<close>, \<open>INET_DIAG_PEERS\<close>,
  \<open>INET_DIAG_PAD\<close> or \<open>INET_DIAG_MD5SIG\<close>, the bit of that type is set in \<open>Observed\<close> and
  also in \<open>NotFullyParsed\<close>: \<open>ok\<close> stays false on these branches of the \<open>switch\<close>.
\<close>

theorem Decode_notDecoded:
  assumes "Decode X ar = Inr (md, snap)"
    and "T \<in> {INET_DIAG_SKV6ONLY, INET_DIAG_LOCALS, INET_DIAG_PEERS, INET_DIAG_PAD, INET_DIAG_MD5SIG}"
    and "T < length (Attributes ar)" and "Attributes ar ! T \<noteq> None"
  shows "bit (Observed snap) (T - 1) \<and> bit (NotFullyParsed snap) (T - 1)"
proof -
  from Decode_Inr[OF assms(1)] obtain r where
    r: "Observed r = 0" "NotFullyParsed r = 0" and l: "Decode_loop X 0 (Attributes ar) r = Inr snap"
    by blast
  from assms(2) have T: "1 \<le> T" "T \<le> 256" "T - 1 < 32"
    by (auto simp: INET_DIAG_SKV6ONLY_def INET_DIAG_LOCALS_def INET_DIAG_PEERS_def
        INET_DIAG_PAD_def INET_DIAG_MD5SIG_def)
  then have b: "bit (attrBit T) (T - 1)"
    using bit_attrBit_small[of T "T - 1"] by simp
  have "bit (NotFullyParsed snap) (T - 1)"
    using Decode_loop_notDecoded[OF l assms(3,4), of "T - 1"] assms(2) b by simp
  moreover have "bit (Observed snap) (T - 1)"
    using Decode_loop_Observed[OF l, of "T - 1"] assms(3,4) b by auto
  ultimately show ?thesis by simp
qed

theorem Decode_notDecoded_witness:
  "Decode linux
     \<lparr>Timestamp = 3, RawIDM = None,
      Attributes = [None, None, None, None, None, None, None, None, None, None, None, None,
                    None, None, Some [0, 0, 0, 0]],
      Metadata = Some \<lparr>UUID = ''a1'', Sequence = 0, StartTime = 2\<rparr>\<rparr>
   = Inr (Some \<lparr>UUID = ''a1'', Sequence = 0, StartTime = 2\<rparr>,
       \<lparr>SnapshotTimestamp = 3, Observed = 8192, NotFullyParsed = 8192,
        InetDiagMsg = None, CongestionAlgorithmName = [], TOS = 0,
        TClass = 0, ClassID = 0, Shutdown = 0, Protocol = 0, Mark = 0, TCPInfo = None,
        MemInfo = None, SocketMem = None, VegasInfo = None, DCTCPInfo = None, BBRInfo = None\<rparr>)
   \<and> bit (8192 :: 32 word) (INET_DIAG_PAD - 1)"
proof -
  let ?ar = "\<lparr>Timestamp = 3, RawIDM = None,
      Attributes = [None, None, None, None, None, None, None, None, None, None, None, None,
                    None, None, Some [0, 0, 0, 0]],
      Metadata = Some \<lparr>UUID = ''a1'', Sequence = 0, StartTime = 2\<rparr>\<rparr>"
  let ?snap = "\<lparr>SnapshotTimestamp = 3, Observed = 8192, NotFullyParsed = 8192,
        InetDiagMsg = None, CongestionAlgorithmName = [], TOS = 0,
        TClass = 0, ClassID = 0, Shutdown = 0, Protocol = 0, Mark = 0, TCPInfo = None,
        MemInfo = None, SocketMem = None, VegasInfo = None, DCTCPInfo = None, BBRInfo = None\<rparr>"
  have d: "Decode linux ?ar = Inr (Some \<lparr>UUID = ''a1'', Sequence = 0, StartTime = 2\<rparr>, ?snap)"
    by code_simp
  have t: "INET_DIAG_PAD \<in> {INET_DIAG_SKV6ONLY, INET_DIAG_LOCALS, INET_DIAG_PEERS, INET_DIAG_PAD, INET_DIAG_MD5SIG}"
    by simp
  have l: "INET_DIAG_PAD < length (Attributes ?ar)" "Attributes ?ar ! INET_DIAG_PAD \<noteq> None"
    by (simp_all add: INET_DIAG_PAD_def)
  from Decode_notDecoded [OF d t l] d
  show ?thesis by simp
qed

text \<open>
  A record with one byte at \<open>INET_DIAG_SKV6ONLY\<close>: bit 10 is set in \<open>NotFullyParsed\<close>.
\<close>

theorem Decode_notDecoded_counterexample:
  "Decode linux
     \<lparr>Timestamp = 0, RawIDM = Some (replicate 72 0),
      Attributes = [None, None, None, None, None, None, None, None, None, None, None, Some [1]],
      Metadata = None\<rparr>
   = Inr (None,
       \<lparr>SnapshotTimestamp = 0, Observed = 1024, NotFullyParsed = 1024,
        InetDiagMsg = Some (replicate 72 0), CongestionAlgorithmName = [], TOS = 0,
        TClass = 0, ClassID = 0, Shutdown = 0, Protocol = 0, Mark = 0, TCPInfo = None,
        MemInfo = None, SocketMem = None, VegasInfo = None, DCTCPInfo = None, BBRInfo = None\<rparr>)
   \<and> bit (1024 :: 32 word) (INET_DIAG_SKV6ONLY - 1)"
  by code_simp

section \<open>Panics\<close>

text \<open>
  Where the modelled code cannot panic: the classifier never does; \<open>maybeCopy\<close> does not
  for a structure of positive size; \<open>toMark\<close> does not. With structures of positive
  size, the only failure of the \<open>switch\<close> of \<open>Decode\<close> is the panic of
  \<open>CongestionAlgorithm\<close> on an empty value. A record that is not empty and whose header
  parses therefore yields a snapshot or that panic, and an empty record yields the error.
\<close>

lemma processSingleMessage_no_panic: "processSingleMessage order m seq pid \<noteq> Inl (Panic p)"
proof (cases "length (Data m) < 4")
  case True
  then show ?thesis by (simp add: processSingleMessage_def Let_def)
next
  case False
  then obtain code where "Uint32 order (take 4 (Data m)) = Inr code"
    using Uint32_take4 [of "Data m" order] by auto
  then show ?thesis by (simp add: processSingleMessage_def Let_def)
qed

lemma maybeCopy_no_panic: "0 < n \<Longrightarrow> \<exists>v ok. maybeCopy src n msgType = Inr (v, ok)"
proof (cases "length src < n")
  case True
  then show ?thesis by (simp only: maybeCopy_short) blast
next
  case False
  assume "0 < n"
  with False have "src \<noteq> []" by auto
  with False show ?thesis by (simp add: maybeCopy_def)
qed

lemma Uint32_length4: "length raw = 4 \<Longrightarrow> \<exists>v. Uint32 order raw = Inr v"
  using Uint32_take4 [of raw order] by simp

lemma toMark_no_panic: "\<exists>v ok. toMark X raw = Inr (v, ok)"
proof (cases "length raw = 4")
  case True
  then obtain v where "Uint32 (native X) raw = Inr v" using Uint32_length4 by blast
  with True show ?thesis by (auto simp: toMark_def)
next
  case False
  then show ?thesis by (auto simp: toMark_def)
qed

lemma Decode_attr_failure:
  assumes "Decode_attr X t raw r = Inl f"
    and "0 < Sizeof_MemInfo X" "0 < Sizeof_LinuxTCPInfo X" "0 < Sizeof_VegasInfo X"
        "0 < Sizeof_SocketMemInfo X" "0 < Sizeof_DCTCPInfo X" "0 < Sizeof_BBRInfo X"
  shows "t = INET_DIAG_CONG \<and> raw = [] \<and> f = Panic SliceBoundsOutOfRange"
proof -
  from assms(2-7) obtain v1 o1 v2 o2 v3 o3 v4 o4 v5 o5 v6 o6 where
    "toMemInfo X raw = Inr (v1, o1)" "toLinuxTCPInfo X raw = Inr (v2, o2)"
    "toVegasInfo X raw = Inr (v3, o3)" "toSockMemInfo X raw = Inr (v4, o4)"
    "toDCTCPInfo X raw = Inr (v5, o5)" "toBBRInfo X raw = Inr (v6, o6)"
    unfolding toMemInfo_def toLinuxTCPInfo_def toVegasInfo_def toSockMemInfo_def
      toDCTCPInfo_def toBBRInfo_def
    using maybeCopy_no_panic by metis
  moreover obtain v7 o7 where "toMark X raw = Inr (v7, o7)" using toMark_no_panic by blast
  ultimately show ?thesis using assms(1)
    by (auto simp: Decode_attr_def CongestionAlgorithm_def split: if_splits prod.splits)
qed

lemma Decode_empty_record:
  "Metadata ar = None \<Longrightarrow> RawIDM ar = None \<Longrightarrow>
   Decode X ar = Inl (Error (Errorf ''error empty record''))"
  by (simp add: Decode_def)

lemma Decode_loop_failure: "Decode_loop X t attrs r = Inl f \<Longrightarrow> \<exists>t raw r. Decode_attr X t raw r = Inl f"
proof (induction attrs arbitrary: t r)
  case Nil
  then show ?case by simp
next
  case (Cons a attrs)
  show ?case
  proof (cases a)
    case None
    with Cons show ?thesis by simp
  next
    case (Some raw)
    show ?thesis
    proof (cases "Decode_attr X t raw r")
      case (Inl f')
      with Some Cons.prems show ?thesis by auto
    next
      case (Inr p)
      with Some Cons.prems Cons.IH show ?thesis
        by (cases p) (simp add: Let_def split: if_splits)
    qed
  qed
qed

lemma Decode_nonempty_record:
  assumes "Metadata ar \<noteq> None \<or> RawIDM ar \<noteq> None"
    and "case RawIDM ar of None \<Rightarrow> True | Some raw \<Rightarrow> (\<exists>idm. RawInetDiagMsg_Parse X raw = Inr idm)"
    and "0 < Sizeof_MemInfo X" "0 < Sizeof_LinuxTCPInfo X" "0 < Sizeof_VegasInfo X"
        "0 < Sizeof_SocketMemInfo X" "0 < Sizeof_DCTCPInfo X" "0 < Sizeof_BBRInfo X"
  shows "(\<exists>snap. Decode X ar = Inr (Metadata ar, snap))
       \<or> Decode X ar = Inl (Panic SliceBoundsOutOfRange)"
proof -
  obtain r0 where r0: "Decode X ar =
      (case Decode_loop X 0 (Attributes ar) r0 of Inl f \<Rightarrow> Inl f | Inr result \<Rightarrow> Inr (Metadata ar, result))"
    using assms(1,2) by (cases "RawIDM ar") (auto simp: Decode_def Let_def)
  show ?thesis
  proof (cases "Decode_loop X 0 (Attributes ar) r0")
    case (Inl f)
    then obtain t raw r where "Decode_attr X t raw r = Inl f" using Decode_loop_failure by blast
    from Decode_attr_failure [OF this assms(3-8)] have "f = Panic SliceBoundsOutOfRange" by simp
    with r0 Inl show ?thesis by simp
  next
    case (Inr snap)
    with r0 show ?thesis by simp
  qed
qed

text \<open>
  Claim C4 fails on the code. \<open>CongestionAlgorithm\<close> on the empty buffer panics on the
  slice expression \<open>raw[:len(raw)-1]\<close>. The input reaches it through the pipeline: a
  message of type 20 with one attribute of type \<open>INET_DIAG_CONG\<close> and an empty value is
  extracted into a record, and \<open>Decode\<close> on that record panics.
\<close>

theorem CongestionAlgorithm_empty_panics:
  "CongestionAlgorithm [] = Inl (Panic SliceBoundsOutOfRange)
 \<and> MakeArchivalRecord linux
     \<lparr>Header = \<lparr>Len = 92, Type = 20, Flags = 2, Seq = 1, Pid = 7\<rparr>,
      Data = replicate 72 0 @ [4, 0, 4, 0]\<rparr> False
   = Some (Inr (Some \<lparr>Timestamp = 0, RawIDM = Some (replicate 72 0),
                       Attributes = [None, None, None, None, Some []], Metadata = None\<rparr>))
 \<and> Decode linux \<lparr>Timestamp = 0, RawIDM = Some (replicate 72 0),
                  Attributes = [None, None, None, None, Some []], Metadata = None\<rparr>
   = Inl (Panic SliceBoundsOutOfRange)"
  by code_simp

text \<open>
  Claim C8 fails on the code for the same reason. A record that carries only metadata,
  and one that carries only a header, each with an empty value at \<open>INET_DIAG_CONG\<close>:
  \<open>Decode\<close> panics and yields no snapshot.
\<close>

theorem Decode_nonempty_record_panics:
  "Decode linux
     \<lparr>Timestamp = 0, RawIDM = None, Attributes = [None, None, None, None, Some []],
      Metadata = Some \<lparr>UUID = ''c0'', Sequence = 0, StartTime = 0\<rparr>\<rparr>
   = Inl (Panic SliceBoundsOutOfRange)
 \<and> Decode linux
     \<lparr>Timestamp = 0, RawIDM = Some (replicate 72 1),
      Attributes = [None, None, None, None, Some []], Metadata = None\<rparr>
   = Inl (Panic SliceBoundsOutOfRange)"
  by code_simp

end
